theory Spec2Isabelle
  imports Main
begin

section \<open>Python data, exceptions and HTTP messages\<close>

text \<open>
  Plain Python data as the gateway handles it: the values \<open>json.loads\<close> produces,
  which are also the values of the dictionaries the code builds itself. A dictionary is
  an association list read with \<open>map_of\<close>. Non-integer numbers are left out: the code
  passes every value through unread, and the only test it makes on one is the identity
  test \<open>is False\<close>.
\<close>

datatype pyval =
    PNone
  | PBool bool
  | PInt int
  | PStr string
  | PList "pyval list"
  | PDict "(string \<times> pyval) list"

text \<open>
  \<open>rest_framework.response.Response(data=..., status=...)\<close>: the data and the status
  argument as the call gives them (\<open>None\<close> when the call gives none).
\<close>

datatype drf_response = Response pyval "int option"

text \<open>
  What a view method hands back with \<open>return\<close>: plain data or a framework response
  object.
\<close>

datatype pyobj = Val pyval | Resp drf_response

text \<open>
  The \<open>detail\<close> attribute of a framework exception: \<open>ErrorDetail\<close> is a string that
  carries an error code (the \<open>code\<close> argument: an integer where the source passes a
  status, the string \<open>invalid\<close> by default), inside the lists and dictionaries of the
  detail the exception was built from.
\<close>

datatype err_code = Code_int int | Code_str string

datatype error_detail =
    ErrorDetail string err_code
  | DetailList "error_detail list"
  | DetailDict "(string \<times> error_detail) list"

text \<open>
  The exceptions that can leave the code: the framework's \<open>ValidationError\<close>, raised by
  the source itself, with its \<open>detail\<close> attribute; \<open>AttributeError\<close> from calling
  \<open>.get\<close> on a value that is not a dictionary; \<open>JSONDecodeError\<close> from \<open>resp.json()\<close>
  on a body that is not JSON; \<open>RequestException\<close> from
  \<open>requests.get\<close>/\<open>requests.post\<close> when the authority cannot be reached.
\<close>

datatype exn =
    ValidationError error_detail
  | AttributeError
  | JSONDecodeError
  | RequestException

text \<open>
  \<open>ValidationError(detail=..., code=...)\<close> does not keep the detail it is given: the
  constructor walks through its lists and dictionaries and turns every other value into
  an \<open>ErrorDetail\<close>, the value's string form (\<open>str(False)\<close> is \<open>False\<close>, \<open>str(None)\<close>
  is \<open>None\<close>) tagged with the code. A detail that is neither a list nor a dictionary is
  first put into a list; a missing detail is the class default, a missing code is
  \<open>invalid\<close>.
\<close>

fun str_of_nat :: "nat \<Rightarrow> string" where
  "str_of_nat n =
     (if n < 10 then [char_of (48 + n)]
      else str_of_nat (n div 10) @ [char_of (48 + n mod 10)])"

declare str_of_nat.simps [simp del]

definition str_of_int :: "int \<Rightarrow> string" where
  "str_of_int i = (if i < 0 then CHR ''-'' # str_of_nat (nat (- i)) else str_of_nat (nat i))"

fun get_error_details :: "pyval \<Rightarrow> err_code \<Rightarrow> error_detail" where
  "get_error_details (PList xs) c = DetailList (map (\<lambda>x. get_error_details x c) xs)"
| "get_error_details (PDict kvs) c =
     DetailDict (map (\<lambda>(k, v). (k, get_error_details v c)) kvs)"
| "get_error_details PNone c = ErrorDetail ''None'' c"
| "get_error_details (PBool b) c = ErrorDetail (if b then ''True'' else ''False'') c"
| "get_error_details (PInt i) c = ErrorDetail (str_of_int i) c"
| "get_error_details (PStr s) c = ErrorDetail s c"

definition ValidationError_init :: "pyval option \<Rightarrow> err_code option \<Rightarrow> exn" where
  "ValidationError_init detail code =
     (let d = (case detail of
                 None \<Rightarrow> PStr ''Invalid input.''
               | Some PNone \<Rightarrow> PStr ''Invalid input.''
               | Some d \<Rightarrow> d);
          c = (case code of None \<Rightarrow> Code_str ''invalid'' | Some c \<Rightarrow> c);
          d' = (case d of PList xs \<Rightarrow> d | PDict kvs \<Rightarrow> d | _ \<Rightarrow> PList [d])
      in ValidationError (get_error_details d' c))"

text \<open>
  The framework's defaults the gateway relies on: a \<open>Response\<close> built without a status
  is sent with 200; the framework's exception handler answers a \<open>ValidationError\<close> with
  its class status 400 (the \<open>code\<close> argument is the error code of the details, not the
  HTTP status); any other exception is unhandled and becomes a server error.
\<close>

fun response_status_code :: "drf_response \<Rightarrow> int" where
  "response_status_code (Response d None) = 200"
| "response_status_code (Response d (Some s)) = s"

fun exception_status_code :: "exn \<Rightarrow> int" where
  "exception_status_code (ValidationError d) = 400"
| "exception_status_code e = 500"

definition HTTP_406_NOT_ACCEPTABLE :: int where
  "HTTP_406_NOT_ACCEPTABLE = 406"

text \<open>
  The inbound request, with the three attributes the code reads: \<open>request.META\<close>,
  \<open>request.environ\<close> (both dictionaries of strings) and \<open>request.data\<close> (the parsed
  body).
\<close>

record request =
  META :: "string \<Rightarrow> string option"
  environ :: "string \<Rightarrow> string option"
  data :: pyval

datatype http_method = GET | POST

text \<open>
  One outbound call of the \<open>requests\<close> library: the method, the URL, the \<open>headers\<close>
  dictionary in the order the source writes it (a value is \<open>None\<close> when the source
  puts \<open>None\<close> there) and the \<open>data\<close> argument (\<open>None\<close> for a call without one).
\<close>

record http_request =
  verb :: http_method
  url :: string
  headers :: "(string \<times> string option) list"
  payload :: "pyval option"

text \<open>
  The authority's answer as the code reads it: \<open>res.status_code\<close>, \<open>res.text\<close> (field \<open>resp_text\<close>) and
  the outcome of \<open>res.json()\<close> (\<open>None\<close> when the body is not JSON).
\<close>

record http_response =
  status_code :: int
  resp_text :: string
  json :: "pyval option"

section \<open>Effects: the call log and exceptions\<close>

text \<open>
  The authority is a parameter: given the calls already made and the present call it
  either answers or the transport fails. The state threaded through the code is the log
  of the calls made so far; a computation returns a value (\<open>Inr\<close>) or raises (\<open>Inl\<close>).
\<close>

type_synonym authority = "http_request list \<Rightarrow> http_request \<Rightarrow> exn + http_response"

type_synonym 'a io = "http_request list \<Rightarrow> (exn + 'a) \<times> http_request list"

definition py_return :: "'a \<Rightarrow> 'a io" where
  "py_return v = (\<lambda>log. (Inr v, log))"

definition py_raise :: "exn \<Rightarrow> 'a io" where
  "py_raise e = (\<lambda>log. (Inl e, log))"

definition py_bind :: "'a io \<Rightarrow> ('a \<Rightarrow> 'b io) \<Rightarrow> 'b io" where
  "py_bind m f = (\<lambda>log. case m log of
       (Inl e, log') \<Rightarrow> (Inl e, log')
     | (Inr v, log') \<Rightarrow> f v log')"

definition py_lift :: "exn + 'a \<Rightarrow> 'a io" where
  "py_lift r = (\<lambda>log. (r, log))"

definition requests_send :: "authority \<Rightarrow> http_request \<Rightarrow> http_response io" where
  "requests_send A rq = (\<lambda>log. (A log rq, log @ [rq]))"

definition requests_get ::
  "authority \<Rightarrow> string \<Rightarrow> (string \<times> string option) list \<Rightarrow> http_response io" where
  "requests_get A u hs =
     requests_send A \<lparr>verb = GET, url = u, headers = hs, payload = None\<rparr>"

definition requests_post ::
  "authority \<Rightarrow> string \<Rightarrow> pyval \<Rightarrow> (string \<times> string option) list \<Rightarrow> http_response io" where
  "requests_post A u d hs =
     requests_send A \<lparr>verb = POST, url = u, headers = hs, payload = Some d\<rparr>"

text \<open>\<open>d.get(k, default)\<close>; an object without \<open>.get\<close> raises.\<close>

fun dict_get :: "pyval \<Rightarrow> string \<Rightarrow> pyval \<Rightarrow> exn + pyval" where
  "dict_get (PDict kvs) k d = Inr (case map_of kvs k of None \<Rightarrow> d | Some v \<Rightarrow> v)"
| "dict_get v k d = Inl AttributeError"

text \<open>\<open>resp.json()\<close>.\<close>

definition resp_json :: "http_response \<Rightarrow> exn + pyval" where
  "resp_json resp = (case json resp of None \<Rightarrow> Inl JSONDecodeError | Some j \<Rightarrow> Inr j)"

text \<open>Truth value of an optional string: \<open>None\<close> and the empty string are false.\<close>

fun truthy :: "string option \<Rightarrow> bool" where
  "truthy None = False"
| "truthy (Some s) = (s \<noteq> [])"

section \<open>EimzoServiceApi\<close>

text \<open>
  The client's methods keep their names; the methods of the two views, some of which bear
  the same names, are prefixed with their class below. Each client method makes one call
  with the headers of \<open>get_headers\<close> and returns the pair \<open>res.status_code, res\<close>.
\<close>

definition VERIFY_URL :: string where
  "VERIFY_URL = ''http://e-imzo-server:8080/backend/pkcs7/verify''"

definition JOIN_URL :: string where
  "JOIN_URL = ''http://e-imzo-server:8080/frontend/pkcs7/join''"

definition TIME_STAMP_URL :: string where
  "TIME_STAMP_URL = ''http://e-imzo-server:8080/frontend/timestamp/pkcs7''"

definition CHALLENGE_URL :: string where
  "CHALLENGE_URL = ''http://e-imzo-server:8080/frontend/challenge''"

definition get_user_ip :: "request \<Rightarrow> string" where
  "get_user_ip request =
     (let x_real_ip = META request ''HTTP_X_REAL_IP'';
          remote_addr = META request ''REMOTE_ADDR''
      in if truthy x_real_ip then the x_real_ip
         else if truthy remote_addr then the remote_addr
         else ''Unknown'')"

definition get_headers :: "request \<Rightarrow> (string \<times> string option) list" where
  "get_headers request =
     [(''Host'', environ request ''HTTP_HOST''),
      (''X-Real-IP'', Some (get_user_ip request))]"

definition eimzo_challenge :: "authority \<Rightarrow> request \<Rightarrow> (int \<times> http_response) io" where
  "eimzo_challenge A request =
     (let u = CHALLENGE_URL;
          hs = get_headers request
      in py_bind (requests_get A u hs) (\<lambda>res.
         py_return (status_code res, res)))"

definition timestamp_pkcs7 ::
  "authority \<Rightarrow> pyval \<Rightarrow> request \<Rightarrow> (int \<times> http_response) io" where
  "timestamp_pkcs7 A pkcs7 request =
     (let time_stamp_url = TIME_STAMP_URL;
          hs = get_headers request
      in py_bind (requests_post A time_stamp_url pkcs7 hs) (\<lambda>res.
         py_return (status_code res, res)))"

definition eimzo_verify ::
  "authority \<Rightarrow> pyval \<Rightarrow> request \<Rightarrow> (int \<times> http_response) io" where
  "eimzo_verify A pkcs7wtst request =
     (let verify_url = VERIFY_URL @ ''/attached'';
          hs = get_headers request
      in py_bind (requests_post A verify_url pkcs7wtst hs) (\<lambda>res.
         py_return (status_code res, res)))"

text \<open>
  The two fragments are strings (the signature says so); the f-string
  \<open>f"{pkcs7_data_1}|{pkcs7_data_2}"\<close> is then their concatenation around one bar.
\<close>

definition pkcs7_join ::
  "authority \<Rightarrow> string \<Rightarrow> string \<Rightarrow> request \<Rightarrow> (int \<times> http_response) io" where
  "pkcs7_join A pkcs7_data_1 pkcs7_data_2 request =
     (let d = pkcs7_data_1 @ ''|'' @ pkcs7_data_2;
          join_url = JOIN_URL;
          hs = get_headers request
      in py_bind (requests_post A join_url (PStr d) hs) (\<lambda>res.
         py_return (status_code res, res)))"

section \<open>SavePkcsView\<close>

text \<open>
  The views call the client through the module's single instance and read
  \<open>self.request\<close>; both are arguments here. The detail dictionary of the rejection is
  the same expression at each of its four places in the source.
\<close>

definition rejection :: "int \<Rightarrow> http_response \<Rightarrow> exn" where
  "rejection sc resp =
     ValidationError_init
       (Some (PDict [(''success'', PBool False), (''err_msg'', PStr (resp_text resp))]))
       (Some (Code_int sc))"

definition SavePkcsView_timestamp_pkcs7 :: "authority \<Rightarrow> request \<Rightarrow> pyval \<Rightarrow> pyobj io" where
  "SavePkcsView_timestamp_pkcs7 A request pkcs7 =
     py_bind (timestamp_pkcs7 A pkcs7 request) (\<lambda>(sc, resp).
       if sc \<noteq> 200 then py_raise (rejection sc resp)
       else py_bind (py_lift (resp_json resp)) (\<lambda>data_json.
            py_bind (py_lift (dict_get data_json ''pkcs7b64'' (PBool False))) (\<lambda>pkcs7b64.
              if pkcs7b64 = PBool False
              then py_return (Resp (Response
                     (PDict [(''success'', PBool False), (''err_msg'', data_json)])
                     (Some HTTP_406_NOT_ACCEPTABLE)))
              else py_return (Val pkcs7b64))))"

definition SavePkcsView_eimzo_verify :: "authority \<Rightarrow> request \<Rightarrow> pyval \<Rightarrow> pyval io" where
  "SavePkcsView_eimzo_verify A request pkcs7b64 =
     py_bind (eimzo_verify A pkcs7b64 request) (\<lambda>(sc, resp).
       if sc \<noteq> 200 then py_raise (rejection sc resp)
       else py_return PNone)"

definition SavePkcsView_pkcs7_join ::
  "authority \<Rightarrow> request \<Rightarrow> string \<Rightarrow> string \<Rightarrow> pyval io" where
  "SavePkcsView_pkcs7_join A request pkcs7_data_1 pkcs7_data_2 =
     py_bind (pkcs7_join A pkcs7_data_1 pkcs7_data_2 request) (\<lambda>(sc, resp).
       if sc \<noteq> 200 then py_raise (rejection sc resp)
       else py_bind (py_lift (resp_json resp)) (\<lambda>join_resp.
            py_lift (dict_get join_resp ''pkcs7b64'' PNone)))"

section \<open>PkcsVerify\<close>

definition PkcsVerify_eimzo_verify :: "authority \<Rightarrow> request \<Rightarrow> pyval \<Rightarrow> pyval io" where
  "PkcsVerify_eimzo_verify A request pkcs7b64 =
     py_bind (eimzo_verify A pkcs7b64 request) (\<lambda>(sc, resp).
       if sc \<noteq> 200 then py_raise (rejection sc resp)
       else py_lift (resp_json resp))"

definition PkcsVerify_post :: "authority \<Rightarrow> request \<Rightarrow> drf_response io" where
  "PkcsVerify_post A request =
     py_bind (py_lift (dict_get (data request) ''pkcs7b64'' PNone)) (\<lambda>pkcs7b64.
       if pkcs7b64 = PNone
       then py_raise (ValidationError_init
              (Some (PDict [(''success'', PBool False),
                            (''err_msg'', PStr ''pkcs7b64 field is required'')]))
              None)
       else py_bind (PkcsVerify_eimzo_verify A request pkcs7b64) (\<lambda>json_resp.
            py_return (Response json_resp None)))"

section \<open>The composite and the scenarios of the examples\<close>

text \<open>
  Modelled from the spec: the "sign-and-stamp" composite of section 4.3, which chains
  Join then Timestamp and feeds the joined envelope into the timestamp stage. The source
  defines the two stage methods and leaves the method that would chain them empty
  (\<open>SavePkcsView.post\<close> is \<open>pass\<close>); the chain is the sequencing of the two calls,
  \<open>self.timestamp_pkcs7(self.pkcs7_join(a, b))\<close>.
\<close>

definition sign_and_stamp :: "authority \<Rightarrow> request \<Rightarrow> string \<Rightarrow> string \<Rightarrow> pyobj io" where
  "sign_and_stamp A request pkcs7_data_1 pkcs7_data_2 =
     py_bind (SavePkcsView_pkcs7_join A request pkcs7_data_1 pkcs7_data_2) (\<lambda>joined.
       SavePkcsView_timestamp_pkcs7 A request joined)"

text \<open>
  An authority stub that gives the same answer to every call, and an inbound request
  with the addresses of the spec's example, for the concrete instances below.
\<close>

definition stub :: "http_response \<Rightarrow> authority" where
  "stub resp = (\<lambda>log rq. Inr resp)"

definition example_request :: request where
  "example_request =
     \<lparr>META = [''HTTP_X_REAL_IP'' \<mapsto> ''10.0.0.5'', ''REMOTE_ADDR'' \<mapsto> ''192.168.1.1''],
      environ = [''HTTP_HOST'' \<mapsto> ''gateway.example''],
      data = PDict [(''pkcs7b64'', PStr ''MIIB'')]\<rparr>"

section \<open>Auxiliary facts about the client and the stages\<close>

text \<open>
  Each client operation makes one call and hands back the status with the response;
  each stage method is a case distinction on what the client handed back.
\<close>

lemma rejection_value:
  "rejection sc resp =
     ValidationError
       (DetailDict [(''success'', ErrorDetail ''False'' (Code_int sc)),
                    (''err_msg'', ErrorDetail (resp_text resp) (Code_int sc))])"
  by (simp add: rejection_def ValidationError_init_def)

lemma missing_field_value:
  "ValidationError_init
     (Some (PDict [(''success'', PBool False),
                   (''err_msg'', PStr ''pkcs7b64 field is required'')]))
     None =
   ValidationError
     (DetailDict [(''success'', ErrorDetail ''False'' (Code_str ''invalid'')),
                  (''err_msg'', ErrorDetail ''pkcs7b64 field is required''
                                 (Code_str ''invalid''))])"
  by (simp add: ValidationError_init_def)

lemma requests_post_run:
  "requests_post A u d hs log =
     (A log \<lparr>verb = POST, url = u, headers = hs, payload = Some d\<rparr>,
      log @ [\<lparr>verb = POST, url = u, headers = hs, payload = Some d\<rparr>])"
  by (simp add: requests_post_def requests_send_def)

lemma requests_get_run:
  "requests_get A u hs log =
     (A log \<lparr>verb = GET, url = u, headers = hs, payload = None\<rparr>,
      log @ [\<lparr>verb = GET, url = u, headers = hs, payload = None\<rparr>])"
  by (simp add: requests_get_def requests_send_def)

lemma snd_py_bind_return:
  "snd (py_bind m (\<lambda>res. py_return (g res)) log) = snd (m log)"
  by (simp add: py_bind_def py_return_def split: prod.splits sum.splits)

lemma timestamp_stage_cases:
  assumes "timestamp_pkcs7 A pkcs7 request log = (Inr (sc, resp), log')"
  shows "SavePkcsView_timestamp_pkcs7 A request pkcs7 log =
     (if sc \<noteq> 200 then (Inl (rejection sc resp), log')
      else case json resp of
        None \<Rightarrow> (Inl JSONDecodeError, log')
      | Some data_json \<Rightarrow>
          (case dict_get data_json ''pkcs7b64'' (PBool False) of
             Inl e \<Rightarrow> (Inl e, log')
           | Inr v \<Rightarrow>
               if v = PBool False
               then (Inr (Resp (Response
                      (PDict [(''success'', PBool False), (''err_msg'', data_json)])
                      (Some 406))), log')
               else (Inr (Val v), log')))"
  using assms
  by (simp add: SavePkcsView_timestamp_pkcs7_def py_bind_def py_raise_def py_return_def
      py_lift_def resp_json_def HTTP_406_NOT_ACCEPTABLE_def split: option.splits sum.splits)

lemma join_stage_cases:
  assumes "pkcs7_join A a b request log = (Inr (sc, resp), log')"
  shows "SavePkcsView_pkcs7_join A request a b log =
     (if sc \<noteq> 200 then (Inl (rejection sc resp), log')
      else case json resp of
        None \<Rightarrow> (Inl JSONDecodeError, log')
      | Some join_resp \<Rightarrow> (dict_get join_resp ''pkcs7b64'' PNone, log'))"
  using assms
  by (simp add: SavePkcsView_pkcs7_join_def py_bind_def py_raise_def py_lift_def
      resp_json_def split: option.splits sum.splits)

lemma join_stage_raise:
  assumes "pkcs7_join A a b request log = (Inl e, log')"
  shows "SavePkcsView_pkcs7_join A request a b log = (Inl e, log')"
  using assms by (simp add: SavePkcsView_pkcs7_join_def py_bind_def)

lemma verify_only_stage_cases:
  assumes "eimzo_verify A p request log = (Inr (sc, resp), log')"
  shows "PkcsVerify_eimzo_verify A request p log =
     (if sc \<noteq> 200 then (Inl (rejection sc resp), log') else (resp_json resp, log'))"
  using assms
  by (simp add: PkcsVerify_eimzo_verify_def py_bind_def py_raise_def py_lift_def)

lemma compose_verify_stage_cases:
  assumes "eimzo_verify A p request log = (Inr (sc, resp), log')"
  shows "SavePkcsView_eimzo_verify A request p log =
     (if sc \<noteq> 200 then (Inl (rejection sc resp), log') else (Inr PNone, log'))"
  using assms
  by (simp add: SavePkcsView_eimzo_verify_def py_bind_def py_raise_def py_return_def)

lemma bar_separates:
  assumes "CHR ''|'' \<notin> set a" and "CHR ''|'' \<notin> set b"
    and "a @ ''|'' @ b = b @ ''|'' @ a"
  shows "a = b"
proof -
  from assms(3) have "a @ CHR ''|'' # b = b @ CHR ''|'' # a"
    by simp
  with append_Cons_eq_iff [OF assms(1) assms(2)] show ?thesis
    by blast
qed

lemma join_client_log:
  "snd (pkcs7_join A a b request log) =
     log @ [\<lparr>verb = POST, url = JOIN_URL, headers = get_headers request,
             payload = Some (PStr (a @ ''|'' @ b))\<rparr>]"
  by (simp add: pkcs7_join_def snd_py_bind_return requests_post_run)

lemma join_stage_log:
  "snd (SavePkcsView_pkcs7_join A request a b log) = snd (pkcs7_join A a b request log)"
  by (simp add: SavePkcsView_pkcs7_join_def py_bind_def py_raise_def py_lift_def
      split: prod.splits sum.splits)

lemma timestamp_client_run:
  "timestamp_pkcs7 A p request log =
     ((case A log \<lparr>verb = POST, url = TIME_STAMP_URL, headers = get_headers request,
                    payload = Some p\<rparr> of
         Inl e \<Rightarrow> Inl e
       | Inr res \<Rightarrow> Inr (status_code res, res)),
      log @ [\<lparr>verb = POST, url = TIME_STAMP_URL, headers = get_headers request,
              payload = Some p\<rparr>])"
  by (simp add: timestamp_pkcs7_def Let_def py_bind_def py_return_def requests_post_run
      split: sum.splits)

lemma verify_client_run:
  "eimzo_verify A p request log =
     ((case A log \<lparr>verb = POST, url = VERIFY_URL @ ''/attached'',
                    headers = get_headers request, payload = Some p\<rparr> of
         Inl e \<Rightarrow> Inl e
       | Inr res \<Rightarrow> Inr (status_code res, res)),
      log @ [\<lparr>verb = POST, url = VERIFY_URL @ ''/attached'',
              headers = get_headers request, payload = Some p\<rparr>])"
  by (simp add: eimzo_verify_def Let_def py_bind_def py_return_def requests_post_run
      split: sum.splits)

lemma join_client_run:
  "pkcs7_join A a b request log =
     ((case A log \<lparr>verb = POST, url = JOIN_URL, headers = get_headers request,
                    payload = Some (PStr (a @ ''|'' @ b))\<rparr> of
         Inl e \<Rightarrow> Inl e
       | Inr res \<Rightarrow> Inr (status_code res, res)),
      log @ [\<lparr>verb = POST, url = JOIN_URL, headers = get_headers request,
              payload = Some (PStr (a @ ''|'' @ b))\<rparr>])"
  by (simp add: pkcs7_join_def Let_def py_bind_def py_return_def requests_post_run
      split: sum.splits)

lemma challenge_client_run:
  "eimzo_challenge A request log =
     ((case A log \<lparr>verb = GET, url = CHALLENGE_URL, headers = get_headers request,
                    payload = None\<rparr> of
         Inl e \<Rightarrow> Inl e
       | Inr res \<Rightarrow> Inr (status_code res, res)),
      log @ [\<lparr>verb = GET, url = CHALLENGE_URL, headers = get_headers request,
              payload = None\<rparr>])"
  by (simp add: eimzo_challenge_def Let_def py_bind_def py_return_def requests_get_run
      split: sum.splits)

lemma example_headers:
  "get_headers example_request =
     [(''Host'', Some ''gateway.example''), (''X-Real-IP'', Some ''10.0.0.5'')]"
  by (simp add: get_headers_def get_user_ip_def example_request_def)

lemma stub_timestamp:
  "timestamp_pkcs7 (stub r) p request log =
     (Inr (status_code r, r),
      log @ [\<lparr>verb = POST, url = TIME_STAMP_URL, headers = get_headers request,
              payload = Some p\<rparr>])"
  by (simp add: timestamp_client_run stub_def)

lemma stub_verify:
  "eimzo_verify (stub r) p request log =
     (Inr (status_code r, r),
      log @ [\<lparr>verb = POST, url = VERIFY_URL @ ''/attached'',
              headers = get_headers request, payload = Some p\<rparr>])"
  by (simp add: verify_client_run stub_def)

lemma stub_join:
  "pkcs7_join (stub r) a b request log =
     (Inr (status_code r, r),
      log @ [\<lparr>verb = POST, url = JOIN_URL, headers = get_headers request,
              payload = Some (PStr (a @ ''|'' @ b))\<rparr>])"
  by (simp add: join_client_run stub_def)

lemma timestamp_stage_raise:
  assumes "timestamp_pkcs7 A pkcs7 request log = (Inl e, log')"
  shows "SavePkcsView_timestamp_pkcs7 A request pkcs7 log = (Inl e, log')"
  using assms by (simp add: SavePkcsView_timestamp_pkcs7_def py_bind_def)

lemma join_stage_success:
  assumes "SavePkcsView_pkcs7_join A request a b log = (Inr joined, log1)"
  shows "\<exists>r1. pkcs7_join A a b request log = (Inr (200, r1), log1)"
proof (cases "pkcs7_join A a b request log")
  case (Pair r l)
  show ?thesis
  proof (cases r)
    case (Inl e)
    with Pair assms show ?thesis
      by (simp add: join_stage_raise)
  next
    case (Inr scr)
    obtain sc resp where "scr = (sc, resp)"
      by (cases scr)
    with Pair Inr have c: "pkcs7_join A a b request log = (Inr (sc, resp), l)"
      by simp
    from assms have "sc = 200" and "l = log1"
      by (auto simp: join_stage_cases [OF c] split: if_splits option.splits)
    with c show ?thesis
      by simp
  qed
qed

lemma timestamp_stage_success:
  assumes "SavePkcsView_timestamp_pkcs7 A request pkcs7 log = (Inr v, log2)"
  shows "\<exists>r2. timestamp_pkcs7 A pkcs7 request log = (Inr (200, r2), log2)"
proof (cases "timestamp_pkcs7 A pkcs7 request log")
  case (Pair r l)
  show ?thesis
  proof (cases r)
    case (Inl e)
    with Pair assms show ?thesis
      by (simp add: timestamp_stage_raise)
  next
    case (Inr scr)
    obtain sc resp where "scr = (sc, resp)"
      by (cases scr)
    with Pair Inr have c: "timestamp_pkcs7 A pkcs7 request log = (Inr (sc, resp), l)"
      by simp
    from assms have "sc = 200" and "l = log2"
      by (auto simp: timestamp_stage_cases [OF c] split: if_splits option.splits sum.splits)
    with c show ?thesis
      by simp
  qed
qed

section \<open>Join: the payload\<close>

text \<open>
  C1. For every pair of fragment strings \<open>a\<close> and \<open>b\<close> the join operation makes one
  POST to the join URL whose payload is \<open>a\<close>, one bar, \<open>b\<close>, in the order the caller
  gave them; the view's join stage sends the same call. The payload is not the reversed
  one whenever the two orders can be told apart at all (the fragments differ and hold no
  bar, as base64 text does not). Nothing is removed when \<open>a = b\<close>: the payload is then
  \<open>a|a\<close>.
\<close>

theorem join_payload_order:
  "\<exists>rq. snd (pkcs7_join A a b request log) = log @ [rq]
      \<and> snd (SavePkcsView_pkcs7_join A request a b log) = log @ [rq]
      \<and> verb rq = POST \<and> url rq = JOIN_URL
      \<and> payload rq = Some (PStr (a @ ''|'' @ b))
      \<and> (CHR ''|'' \<notin> set a \<and> CHR ''|'' \<notin> set b \<and> a \<noteq> b
            \<longrightarrow> payload rq \<noteq> Some (PStr (b @ ''|'' @ a)))"
proof -
  let ?rq = "\<lparr>verb = POST, url = JOIN_URL, headers = get_headers request,
              payload = Some (PStr (a @ ''|'' @ b))\<rparr>"
  have sent: "snd (pkcs7_join A a b request log) = log @ [?rq]"
    by (rule join_client_log)
  moreover have "snd (SavePkcsView_pkcs7_join A request a b log) = log @ [?rq]"
    by (simp only: join_stage_log sent)
  moreover have "payload ?rq \<noteq> Some (PStr (b @ ''|'' @ a))"
    if "CHR ''|'' \<notin> set a \<and> CHR ''|'' \<notin> set b \<and> a \<noteq> b"
    using that bar_separates [of a b] by auto
  ultimately show ?thesis
    by (intro exI [of _ ?rq]) simp
qed

theorem join_payload_order_witness:
  "CHR ''|'' \<notin> set ''AAA'' \<and> CHR ''|'' \<notin> set ''BBB'' \<and> ''AAA'' \<noteq> ''BBB'' \<and>
   (\<exists>rq. snd (pkcs7_join (stub \<lparr>status_code = 200, resp_text = ''{}'', json = Some (PDict [])\<rparr>)
                ''AAA'' ''BBB'' example_request []) = [rq]
      \<and> payload rq = Some (PStr ''AAA|BBB'')
      \<and> payload rq \<noteq> Some (PStr ''BBB|AAA''))"
  using join_payload_order [of "stub \<lparr>status_code = 200, resp_text = ''{}'', json = Some (PDict [])\<rparr>"
      "''AAA''" "''BBB''" example_request "[]"]
  by auto

section \<open>Timestamp: the answer without an envelope\<close>

text \<open>
  C2, as amended. When the authority answers the timestamp call with status 200 and a
  JSON object in which \<open>pkcs7b64\<close> is absent or is the literal \<open>false\<close>, the stage
  returns the 406 Not Acceptable response that carries the parsed body: neither an
  envelope nor the rejection raised for another status. When the field is there with any
  other value, that value is returned as the envelope.
\<close>

theorem timestamp_ambiguous_success:
  assumes client: "timestamp_pkcs7 A pkcs7 request log = (Inr (200, resp), log')"
    and body: "json resp = Some (PDict kvs)"
  shows "(map_of kvs ''pkcs7b64'' = None \<or> map_of kvs ''pkcs7b64'' = Some (PBool False) \<longrightarrow>
            SavePkcsView_timestamp_pkcs7 A request pkcs7 log =
              (Inr (Resp (Response
                 (PDict [(''success'', PBool False), (''err_msg'', PDict kvs)])
                 (Some 406))), log')) \<and>
         (map_of kvs ''pkcs7b64'' = Some v \<and> v \<noteq> PBool False \<longrightarrow>
            SavePkcsView_timestamp_pkcs7 A request pkcs7 log = (Inr (Val v), log'))"
proof (intro conjI impI)
  assume "map_of kvs ''pkcs7b64'' = None \<or> map_of kvs ''pkcs7b64'' = Some (PBool False)"
  then have "dict_get (PDict kvs) ''pkcs7b64'' (PBool False) = Inr (PBool False)"
    by auto
  with body show "SavePkcsView_timestamp_pkcs7 A request pkcs7 log =
      (Inr (Resp (Response
         (PDict [(''success'', PBool False), (''err_msg'', PDict kvs)])
         (Some 406))), log')"
    by (simp add: timestamp_stage_cases [OF client])
next
  assume "map_of kvs ''pkcs7b64'' = Some v \<and> v \<noteq> PBool False"
  then have "dict_get (PDict kvs) ''pkcs7b64'' (PBool False) = Inr v" and "v \<noteq> PBool False"
    by auto
  with body show "SavePkcsView_timestamp_pkcs7 A request pkcs7 log = (Inr (Val v), log')"
    by (simp add: timestamp_stage_cases [OF client])
qed

theorem timestamp_ambiguous_success_witness:
  "SavePkcsView_timestamp_pkcs7
     (stub \<lparr>status_code = 200, resp_text = ''{}'', json = Some (PDict [])\<rparr>)
     example_request (PStr ''MIIB'') [] =
     (Inr (Resp (Response (PDict [(''success'', PBool False), (''err_msg'', PDict [])])
        (Some 406))),
      [\<lparr>verb = POST, url = TIME_STAMP_URL,
        headers = [(''Host'', Some ''gateway.example''), (''X-Real-IP'', Some ''10.0.0.5'')],
        payload = Some (PStr ''MIIB'')\<rparr>]) \<and>
   SavePkcsView_timestamp_pkcs7
     (stub \<lparr>status_code = 200, resp_text = [], json = Some (PDict [(''pkcs7b64'', PStr ''XYZ'')])\<rparr>)
     example_request (PStr ''MIIB'') [] =
     (Inr (Val (PStr ''XYZ'')),
      [\<lparr>verb = POST, url = TIME_STAMP_URL,
        headers = [(''Host'', Some ''gateway.example''), (''X-Real-IP'', Some ''10.0.0.5'')],
        payload = Some (PStr ''MIIB'')\<rparr>])"
proof -
  let ?absent = "\<lparr>status_code = 200, resp_text = ''{}'', json = Some (PDict [])\<rparr>"
  let ?given = "\<lparr>status_code = 200, resp_text = [],
                 json = Some (PDict [(''pkcs7b64'', PStr ''XYZ'')])\<rparr>"
  let ?rq = "\<lparr>verb = POST, url = TIME_STAMP_URL,
        headers = [(''Host'', Some ''gateway.example''), (''X-Real-IP'', Some ''10.0.0.5'')],
        payload = Some (PStr ''MIIB'')\<rparr>"
  have a: "timestamp_pkcs7 (stub ?absent) (PStr ''MIIB'') example_request [] =
      (Inr (200, ?absent), [?rq])"
    by (simp add: stub_timestamp example_headers)
  have g: "timestamp_pkcs7 (stub ?given) (PStr ''MIIB'') example_request [] =
      (Inr (200, ?given), [?rq])"
    by (simp add: stub_timestamp example_headers)
  from timestamp_ambiguous_success [OF a, where kvs = "[]"]
    timestamp_ambiguous_success [OF g, where kvs = "[(''pkcs7b64'', PStr ''XYZ'')]"
      and v = "PStr ''XYZ''"]
  show ?thesis
    by simp
qed

text \<open>
  The claim as first stated speaks of a field that is absent or false-like. The source
  tests \<open>pkcs7b64 is False\<close>, an identity test: a field holding \<open>null\<close>, the empty
  string or zero is false-like and is still returned as the envelope.
\<close>

theorem timestamp_falsy_field_counterexample:
  "fst (SavePkcsView_timestamp_pkcs7
         (stub \<lparr>status_code = 200, resp_text = [], json = Some (PDict [(''pkcs7b64'', PNone)])\<rparr>)
         example_request (PStr ''MIIB'') []) = Inr (Val PNone) \<and>
   fst (SavePkcsView_timestamp_pkcs7
         (stub \<lparr>status_code = 200, resp_text = [], json = Some (PDict [(''pkcs7b64'', PStr [])])\<rparr>)
         example_request (PStr ''MIIB'') []) = Inr (Val (PStr [])) \<and>
   fst (SavePkcsView_timestamp_pkcs7
         (stub \<lparr>status_code = 200, resp_text = [], json = Some (PDict [(''pkcs7b64'', PInt 0)])\<rparr>)
         example_request (PStr ''MIIB'') []) = Inr (Val (PInt 0))"
  by (simp add: timestamp_stage_cases [OF stub_timestamp])

section \<open>The verify-only endpoint\<close>

text \<open>
  C3, as amended. For a request whose body is a key-value object in which \<open>pkcs7b64\<close>
  is absent or \<open>null\<close>, the endpoint raises the missing-field validation error (a
  detail with the keys \<open>success\<close> and \<open>err_msg\<close>, the latter the string "pkcs7b64
  field is required"; status 400) and makes no call to the authority. What the detail
  holds under \<open>success\<close> is left open here. For a request in which the field has a value other than \<open>null\<close>, it makes
  exactly one verify call with that value as payload; when the authority answers 200
  with a JSON body, it returns that parsed body unchanged in a response with status 200.
\<close>

theorem verify_only_endpoint:
  assumes "data request = PDict kvs"
  shows "(map_of kvs ''pkcs7b64'' = None \<or> map_of kvs ''pkcs7b64'' = Some PNone \<longrightarrow>
            (\<exists>s e. PkcsVerify_post A request log = (Inl e, log) \<and>
               e = ValidationError
                     (DetailDict [(''success'', s),
                                  (''err_msg'', ErrorDetail ''pkcs7b64 field is required''
                                                 (Code_str ''invalid''))]) \<and>
               exception_status_code e = 400)) \<and>
         (map_of kvs ''pkcs7b64'' = Some v \<and> v \<noteq> PNone \<longrightarrow>
            snd (PkcsVerify_post A request log) =
              log @ [\<lparr>verb = POST, url = VERIFY_URL @ ''/attached'',
                      headers = get_headers request, payload = Some v\<rparr>] \<and>
            (\<forall>resp j log'.
               eimzo_verify A v request log = (Inr (200, resp), log') \<and> json resp = Some j \<longrightarrow>
                 PkcsVerify_post A request log = (Inr (Response j None), log') \<and>
                 response_status_code (Response j None) = 200))"
proof (intro conjI impI allI)
  assume "map_of kvs ''pkcs7b64'' = None \<or> map_of kvs ''pkcs7b64'' = Some PNone"
  then have "dict_get (PDict kvs) ''pkcs7b64'' PNone = Inr PNone"
    by auto
  with assms have "PkcsVerify_post A request log =
      (Inl (ValidationError
              (DetailDict [(''success'', ErrorDetail ''False'' (Code_str ''invalid'')),
                           (''err_msg'', ErrorDetail ''pkcs7b64 field is required''
                                          (Code_str ''invalid''))])), log)"
    by (simp add: PkcsVerify_post_def py_bind_def py_lift_def py_raise_def missing_field_value)
  then show "\<exists>s e. PkcsVerify_post A request log = (Inl e, log) \<and>
      e = ValidationError
            (DetailDict [(''success'', s),
                         (''err_msg'', ErrorDetail ''pkcs7b64 field is required''
                                        (Code_str ''invalid''))]) \<and>
      exception_status_code e = 400"
    by simp
next
  assume "map_of kvs ''pkcs7b64'' = Some v \<and> v \<noteq> PNone"
  then have get: "dict_get (PDict kvs) ''pkcs7b64'' PNone = Inr v" and "v \<noteq> PNone"
    by auto
  with assms have post: "PkcsVerify_post A request log =
      py_bind (PkcsVerify_eimzo_verify A request v) (\<lambda>json_resp.
        py_return (Response json_resp None)) log"
    by (simp add: PkcsVerify_post_def py_bind_def py_lift_def)
  have "snd (PkcsVerify_post A request log) = snd (PkcsVerify_eimzo_verify A request v log)"
    by (simp only: post snd_py_bind_return)
  also have "\<dots> = snd (eimzo_verify A v request log)"
    by (simp add: PkcsVerify_eimzo_verify_def py_bind_def py_raise_def py_lift_def
        split: prod.splits sum.splits)
  finally show "snd (PkcsVerify_post A request log) =
      log @ [\<lparr>verb = POST, url = VERIFY_URL @ ''/attached'',
              headers = get_headers request, payload = Some v\<rparr>]"
    by (simp add: verify_client_run)
  fix resp j log'
  assume "eimzo_verify A v request log = (Inr (200, resp), log') \<and> json resp = Some j"
  then show "PkcsVerify_post A request log = (Inr (Response j None), log')"
    by (simp add: post py_bind_def py_return_def verify_only_stage_cases resp_json_def)
  show "response_status_code (Response j None) = 200"
    by simp
qed

theorem verify_only_endpoint_witness:
  "(\<exists>s. PkcsVerify_post
     (stub \<lparr>status_code = 200, resp_text = [], json = Some (PDict [(''ok'', PBool True)])\<rparr>)
     (example_request\<lparr>data := PDict []\<rparr>) [] =
     (Inl (ValidationError
             (DetailDict [(''success'', s),
                          (''err_msg'', ErrorDetail ''pkcs7b64 field is required''
                                         (Code_str ''invalid''))])), [])) \<and>
   PkcsVerify_post
     (stub \<lparr>status_code = 200, resp_text = [], json = Some (PDict [(''ok'', PBool True)])\<rparr>)
     example_request [] =
     (Inr (Response (PDict [(''ok'', PBool True)]) None),
      [\<lparr>verb = POST, url = VERIFY_URL @ ''/attached'',
        headers = [(''Host'', Some ''gateway.example''), (''X-Real-IP'', Some ''10.0.0.5'')],
        payload = Some (PStr ''MIIB'')\<rparr>])"
proof -
  let ?ok = "\<lparr>status_code = 200, resp_text = [], json = Some (PDict [(''ok'', PBool True)])\<rparr>"
  let ?rq = "\<lparr>verb = POST, url = VERIFY_URL @ ''/attached'',
        headers = [(''Host'', Some ''gateway.example''), (''X-Real-IP'', Some ''10.0.0.5'')],
        payload = Some (PStr ''MIIB'')\<rparr>"
  have d0: "data (example_request\<lparr>data := PDict []\<rparr>) = PDict []"
    by simp
  have d1: "data example_request = PDict [(''pkcs7b64'', PStr ''MIIB'')]"
    by (simp add: example_request_def)
  have c: "eimzo_verify (stub ?ok) (PStr ''MIIB'') example_request [] = (Inr (200, ?ok), [?rq])"
    by (simp add: stub_verify example_headers)
  from verify_only_endpoint [OF d0, where A = "stub ?ok" and log = "[]"]
  have 1: "\<exists>s. PkcsVerify_post (stub ?ok) (example_request\<lparr>data := PDict []\<rparr>) [] =
     (Inl (ValidationError
             (DetailDict [(''success'', s),
                          (''err_msg'', ErrorDetail ''pkcs7b64 field is required''
                                         (Code_str ''invalid''))])), [])"
    by auto
  from verify_only_endpoint [OF d1, where A = "stub ?ok" and log = "[]" and v = "PStr ''MIIB''"] c
  have 2: "PkcsVerify_post (stub ?ok) example_request [] =
     (Inr (Response (PDict [(''ok'', PBool True)]) None), [?rq])"
    by simp
  from 1 2 show ?thesis
    by simp
qed

text \<open>
  The claim as first stated promises the verify stage for every request that contains
  the field. The source tests the looked-up value with \<open>is None\<close>, so a body that
  contains the field with the value \<open>null\<close> gets the missing-field error and the
  authority is never called.
\<close>

theorem verify_only_null_field_counterexample:
  "map_of [(''pkcs7b64'', PNone)] ''pkcs7b64'' = Some PNone \<and>
   PkcsVerify_post
     (stub \<lparr>status_code = 200, resp_text = ''{}'', json = Some (PDict [])\<rparr>)
     (example_request\<lparr>data := PDict [(''pkcs7b64'', PNone)]\<rparr>) [] =
     (Inl (ValidationError
             (DetailDict [(''success'', ErrorDetail ''False'' (Code_str ''invalid'')),
                          (''err_msg'', ErrorDetail ''pkcs7b64 field is required''
                                         (Code_str ''invalid''))])), [])"
  by (simp add: PkcsVerify_post_def py_bind_def py_lift_def py_raise_def missing_field_value)

section \<open>Identity resolution\<close>

text \<open>
  C4. Identity resolution returns the forwarded source-IP field \<open>HTTP_X_REAL_IP\<close> when
  it is present and non-empty; otherwise the peer address \<open>REMOTE_ADDR\<close> when that is
  present and non-empty; otherwise the string "Unknown". The function is total: its
  result is a string and it has no error value.
\<close>

theorem get_user_ip_policy:
  "(META request ''HTTP_X_REAL_IP'' = Some x \<and> x \<noteq> [] \<longrightarrow> get_user_ip request = x) \<and>
   ((META request ''HTTP_X_REAL_IP'' = None \<or> META request ''HTTP_X_REAL_IP'' = Some [])
      \<and> META request ''REMOTE_ADDR'' = Some r \<and> r \<noteq> [] \<longrightarrow> get_user_ip request = r) \<and>
   ((META request ''HTTP_X_REAL_IP'' = None \<or> META request ''HTTP_X_REAL_IP'' = Some [])
      \<and> (META request ''REMOTE_ADDR'' = None \<or> META request ''REMOTE_ADDR'' = Some [])
      \<longrightarrow> get_user_ip request = ''Unknown'')"
proof (intro conjI impI)
  assume "META request ''HTTP_X_REAL_IP'' = Some x \<and> x \<noteq> []"
  then show "get_user_ip request = x"
    by (simp add: get_user_ip_def)
next
  assume h: "(META request ''HTTP_X_REAL_IP'' = None \<or> META request ''HTTP_X_REAL_IP'' = Some [])
      \<and> META request ''REMOTE_ADDR'' = Some r \<and> r \<noteq> []"
  then have "\<not> truthy (META request ''HTTP_X_REAL_IP'')"
    by auto
  with h show "get_user_ip request = r"
    by (simp add: get_user_ip_def)
next
  assume h: "(META request ''HTTP_X_REAL_IP'' = None \<or> META request ''HTTP_X_REAL_IP'' = Some [])
      \<and> (META request ''REMOTE_ADDR'' = None \<or> META request ''REMOTE_ADDR'' = Some [])"
  then have "\<not> truthy (META request ''HTTP_X_REAL_IP'')"
    and "\<not> truthy (META request ''REMOTE_ADDR'')"
    by auto
  then show "get_user_ip request = ''Unknown''"
    by (simp add: get_user_ip_def)
qed

theorem get_user_ip_policy_witness:
  "get_user_ip example_request = ''10.0.0.5'' \<and>
   get_user_ip (example_request\<lparr>META := [''HTTP_X_REAL_IP'' \<mapsto> [], ''REMOTE_ADDR'' \<mapsto> ''192.168.1.1'']\<rparr>)
     = ''192.168.1.1'' \<and>
   get_user_ip (example_request\<lparr>META := Map.empty\<rparr>) = ''Unknown''"
proof -
  let ?fwd = "example_request"
  let ?peer = "example_request\<lparr>META := [''HTTP_X_REAL_IP'' \<mapsto> [], ''REMOTE_ADDR'' \<mapsto> ''192.168.1.1'']\<rparr>"
  let ?none = "example_request\<lparr>META := Map.empty\<rparr>"
  have "META ?fwd ''HTTP_X_REAL_IP'' = Some ''10.0.0.5'' \<and> ''10.0.0.5'' \<noteq> []"
    by (simp add: example_request_def)
  with get_user_ip_policy [of ?fwd "''10.0.0.5''"]
  have 1: "get_user_ip ?fwd = ''10.0.0.5''"
    by blast
  have "(META ?peer ''HTTP_X_REAL_IP'' = None \<or> META ?peer ''HTTP_X_REAL_IP'' = Some [])
      \<and> META ?peer ''REMOTE_ADDR'' = Some ''192.168.1.1'' \<and> ''192.168.1.1'' \<noteq> []"
    by simp
  with get_user_ip_policy [of ?peer _ "''192.168.1.1''"]
  have 2: "get_user_ip ?peer = ''192.168.1.1''"
    by blast
  have "(META ?none ''HTTP_X_REAL_IP'' = None \<or> META ?none ''HTTP_X_REAL_IP'' = Some [])
      \<and> (META ?none ''REMOTE_ADDR'' = None \<or> META ?none ''REMOTE_ADDR'' = Some [])"
    by simp
  with get_user_ip_policy [of ?none]
  have 3: "get_user_ip ?none = ''Unknown''"
    by blast
  from 1 2 3 show ?thesis
    by simp
qed

section \<open>Verify: the rejection\<close>

text \<open>
  C5, as amended. When the authority answers the verify call with a status other than
  200, both verify stages raise a validation error whose detail carries, under
  \<open>err_msg\<close>, the text of the authority's response, tagged with the authority's status
  as error code; the framework answers a validation error with status 400, a client
  error. The error names no stage: its detail has the keys \<open>success\<close> and \<open>err_msg\<close>
  and no other, and the timestamp stage raises the very same value for the same answer.
\<close>

theorem verify_rejection:
  assumes client: "eimzo_verify A p request log = (Inr (sc, resp), log')"
    and rejected: "sc \<noteq> 200"
  shows "\<exists>s e. PkcsVerify_eimzo_verify A request p log = (Inl e, log') \<and>
           SavePkcsView_eimzo_verify A request p log = (Inl e, log') \<and>
           e = ValidationError
                 (DetailDict [(''success'', s),
                              (''err_msg'', ErrorDetail (resp_text resp) (Code_int sc))]) \<and>
           exception_status_code e = 400 \<and>
           (\<forall>pkcs7 l l'. timestamp_pkcs7 A pkcs7 request l = (Inr (sc, resp), l') \<longrightarrow>
              fst (SavePkcsView_timestamp_pkcs7 A request pkcs7 l) = Inl e)"
proof -
  have v: "PkcsVerify_eimzo_verify A request p log = (Inl (rejection sc resp), log')"
    using rejected by (simp add: verify_only_stage_cases [OF client])
  have s: "SavePkcsView_eimzo_verify A request p log = (Inl (rejection sc resp), log')"
    using rejected by (simp add: compose_verify_stage_cases [OF client])
  have t: "fst (SavePkcsView_timestamp_pkcs7 A request pkcs7 l) = Inl (rejection sc resp)"
    if "timestamp_pkcs7 A pkcs7 request l = (Inr (sc, resp), l')" for pkcs7 l l'
    using rejected by (simp add: timestamp_stage_cases [OF that])
  have e: "rejection sc resp =
      ValidationError
        (DetailDict [(''success'', ErrorDetail ''False'' (Code_int sc)),
                     (''err_msg'', ErrorDetail (resp_text resp) (Code_int sc))])"
    by (rule rejection_value)
  have c: "exception_status_code (rejection sc resp) = 400"
    by (simp add: rejection_value)
  from v s t e c show ?thesis
    by blast
qed

theorem verify_rejection_witness:
  "(500::int) \<noteq> 200 \<and>
   (\<exists>s. PkcsVerify_eimzo_verify
          (stub \<lparr>status_code = 500, resp_text = ''boom'', json = None\<rparr>)
          example_request (PStr ''MIIB'') [] =
          (Inl (ValidationError
                  (DetailDict [(''success'', s),
                               (''err_msg'', ErrorDetail ''boom'' (Code_int 500))])),
           [\<lparr>verb = POST, url = VERIFY_URL @ ''/attached'',
             headers = [(''Host'', Some ''gateway.example''), (''X-Real-IP'', Some ''10.0.0.5'')],
             payload = Some (PStr ''MIIB'')\<rparr>]) \<and>
        fst (SavePkcsView_timestamp_pkcs7
              (stub \<lparr>status_code = 500, resp_text = ''boom'', json = None\<rparr>)
              example_request (PStr ''MIIB'') []) =
          Inl (ValidationError
                 (DetailDict [(''success'', s),
                              (''err_msg'', ErrorDetail ''boom'' (Code_int 500))])))"
proof -
  let ?r = "\<lparr>status_code = 500, resp_text = ''boom'', json = None\<rparr>"
  let ?rq = "\<lparr>verb = POST, url = VERIFY_URL @ ''/attached'',
        headers = [(''Host'', Some ''gateway.example''), (''X-Real-IP'', Some ''10.0.0.5'')],
        payload = Some (PStr ''MIIB'')\<rparr>"
  have c: "eimzo_verify (stub ?r) (PStr ''MIIB'') example_request [] = (Inr (500, ?r), [?rq])"
    by (simp add: stub_verify example_headers)
  have t: "timestamp_pkcs7 (stub ?r) (PStr ''MIIB'') example_request [] =
      (Inr (500, ?r), [\<lparr>verb = POST, url = TIME_STAMP_URL,
        headers = [(''Host'', Some ''gateway.example''), (''X-Real-IP'', Some ''10.0.0.5'')],
        payload = Some (PStr ''MIIB'')\<rparr>])"
    by (simp add: stub_timestamp example_headers)
  have n: "(500::int) \<noteq> 200"
    by simp
  from verify_rejection [OF c n] obtain s e
    where v: "PkcsVerify_eimzo_verify (stub ?r) example_request (PStr ''MIIB'') [] =
        (Inl e, [?rq])"
      and e: "e = ValidationError
          (DetailDict [(''success'', s), (''err_msg'', ErrorDetail ''boom'' (Code_int 500))])"
      and ts: "\<forall>pkcs7 l l'.
          timestamp_pkcs7 (stub ?r) pkcs7 example_request l = (Inr (500, ?r), l') \<longrightarrow>
          fst (SavePkcsView_timestamp_pkcs7 (stub ?r) example_request pkcs7 l) = Inl e"
    by auto
  from ts t have "fst (SavePkcsView_timestamp_pkcs7 (stub ?r) example_request (PStr ''MIIB'') [])
      = Inl e"
    by blast
  with v e n show ?thesis
    by blast
qed

text \<open>
  The claim as first stated has the failure carry the stage name \<open>verify\<close>. At a 500
  answer with the text "boom" the value raised holds the two keys \<open>success\<close> and
  \<open>err_msg\<close> and the status only, and it is the same value whether a verify stage or
  the timestamp stage raises it.
\<close>

theorem rejection_names_no_stage_counterexample:
  "fst (PkcsVerify_eimzo_verify
         (stub \<lparr>status_code = 500, resp_text = ''boom'', json = None\<rparr>)
         example_request (PStr ''MIIB'') []) =
     Inl (ValidationError
            (DetailDict [(''success'', ErrorDetail ''False'' (Code_int 500)),
                         (''err_msg'', ErrorDetail ''boom'' (Code_int 500))])) \<and>
   fst (SavePkcsView_eimzo_verify
         (stub \<lparr>status_code = 500, resp_text = ''boom'', json = None\<rparr>)
         example_request (PStr ''MIIB'') []) =
     Inl (ValidationError
            (DetailDict [(''success'', ErrorDetail ''False'' (Code_int 500)),
                         (''err_msg'', ErrorDetail ''boom'' (Code_int 500))])) \<and>
   fst (SavePkcsView_timestamp_pkcs7
         (stub \<lparr>status_code = 500, resp_text = ''boom'', json = None\<rparr>)
         example_request (PStr ''MIIB'') []) =
     Inl (ValidationError
            (DetailDict [(''success'', ErrorDetail ''False'' (Code_int 500)),
                         (''err_msg'', ErrorDetail ''boom'' (Code_int 500))]))"
  by (simp add: verify_only_stage_cases [OF stub_verify]
      compose_verify_stage_cases [OF stub_verify]
      timestamp_stage_cases [OF stub_timestamp] rejection_value)

section \<open>Join: the answer without an envelope\<close>

text \<open>
  C6. When the authority answers the join call with status 200 and a JSON object, the
  join stage returns the value of \<open>pkcs7b64\<close> in it; when the field is absent it
  returns \<open>None\<close>. It raises nothing and builds no response object, whereas the
  timestamp stage, given the same answer without the field, returns the 406 response.
\<close>

theorem join_tolerates_absence:
  assumes client: "pkcs7_join A a b request log = (Inr (200, resp), log')"
    and body: "json resp = Some (PDict kvs)"
  shows "SavePkcsView_pkcs7_join A request a b log =
           (Inr (case map_of kvs ''pkcs7b64'' of None \<Rightarrow> PNone | Some v \<Rightarrow> v), log') \<and>
         (map_of kvs ''pkcs7b64'' = None \<longrightarrow>
            SavePkcsView_pkcs7_join A request a b log = (Inr PNone, log') \<and>
            (\<forall>pkcs7 l l'. timestamp_pkcs7 A pkcs7 request l = (Inr (200, resp), l') \<longrightarrow>
               SavePkcsView_timestamp_pkcs7 A request pkcs7 l =
                 (Inr (Resp (Response
                    (PDict [(''success'', PBool False), (''err_msg'', PDict kvs)])
                    (Some 406))), l')))"
proof -
  have j: "SavePkcsView_pkcs7_join A request a b log =
      (Inr (case map_of kvs ''pkcs7b64'' of None \<Rightarrow> PNone | Some v \<Rightarrow> v), log')"
    using body by (simp add: join_stage_cases [OF client])
  have t: "SavePkcsView_timestamp_pkcs7 A request pkcs7 l =
      (Inr (Resp (Response
         (PDict [(''success'', PBool False), (''err_msg'', PDict kvs)])
         (Some 406))), l')"
    if "map_of kvs ''pkcs7b64'' = None"
      and "timestamp_pkcs7 A pkcs7 request l = (Inr (200, resp), l')" for pkcs7 l l'
    using body that(1) by (simp add: timestamp_stage_cases [OF that(2)])
  from j t show ?thesis
    by simp
qed

theorem join_tolerates_absence_witness:
  "SavePkcsView_pkcs7_join
     (stub \<lparr>status_code = 200, resp_text = ''{}'', json = Some (PDict [])\<rparr>)
     example_request ''AAA'' ''BBB'' [] =
     (Inr PNone,
      [\<lparr>verb = POST, url = JOIN_URL,
        headers = [(''Host'', Some ''gateway.example''), (''X-Real-IP'', Some ''10.0.0.5'')],
        payload = Some (PStr ''AAA|BBB'')\<rparr>]) \<and>
   SavePkcsView_timestamp_pkcs7
     (stub \<lparr>status_code = 200, resp_text = ''{}'', json = Some (PDict [])\<rparr>)
     example_request (PStr ''MIIB'') [] =
     (Inr (Resp (Response (PDict [(''success'', PBool False), (''err_msg'', PDict [])])
        (Some 406))),
      [\<lparr>verb = POST, url = TIME_STAMP_URL,
        headers = [(''Host'', Some ''gateway.example''), (''X-Real-IP'', Some ''10.0.0.5'')],
        payload = Some (PStr ''MIIB'')\<rparr>])"
proof -
  let ?r = "\<lparr>status_code = 200, resp_text = ''{}'', json = Some (PDict [])\<rparr>"
  have c: "pkcs7_join (stub ?r) ''AAA'' ''BBB'' example_request [] =
      (Inr (200, ?r), [\<lparr>verb = POST, url = JOIN_URL,
        headers = [(''Host'', Some ''gateway.example''), (''X-Real-IP'', Some ''10.0.0.5'')],
        payload = Some (PStr ''AAA|BBB'')\<rparr>])"
    by (simp add: stub_join example_headers)
  have t: "timestamp_pkcs7 (stub ?r) (PStr ''MIIB'') example_request [] =
      (Inr (200, ?r), [\<lparr>verb = POST, url = TIME_STAMP_URL,
        headers = [(''Host'', Some ''gateway.example''), (''X-Real-IP'', Some ''10.0.0.5'')],
        payload = Some (PStr ''MIIB'')\<rparr>])"
    by (simp add: stub_timestamp example_headers)
  have b: "json ?r = Some (PDict [])"
    by simp
  from join_tolerates_absence [OF c b] t show ?thesis
    by simp
qed

section \<open>The composite: fail fast\<close>

text \<open>
  C7. In the join-then-timestamp composite a status other than 200 at either stage ends
  the chain with the validation error of that stage. After a rejected join the log holds
  the join call and nothing else: the timestamp call is never made. Whenever the
  composite returns a value instead of raising, both the join call and the timestamp
  call were answered with 200.
\<close>

theorem sign_and_stamp_fail_fast:
  "(pkcs7_join A a b request log = (Inr (sc, resp), log1) \<and> sc \<noteq> 200 \<longrightarrow>
      sign_and_stamp A request a b log =
        (Inl (ValidationError
                (DetailDict [(''success'', ErrorDetail ''False'' (Code_int sc)),
                             (''err_msg'', ErrorDetail (resp_text resp) (Code_int sc))])),
         log @ [\<lparr>verb = POST, url = JOIN_URL, headers = get_headers request,
                 payload = Some (PStr (a @ ''|'' @ b))\<rparr>])) \<and>
   (SavePkcsView_pkcs7_join A request a b log = (Inr joined, l1) \<and>
    timestamp_pkcs7 A joined request l1 = (Inr (sc', resp'), l2) \<and> sc' \<noteq> 200 \<longrightarrow>
      sign_and_stamp A request a b log =
        (Inl (ValidationError
                (DetailDict [(''success'', ErrorDetail ''False'' (Code_int sc')),
                             (''err_msg'', ErrorDetail (resp_text resp') (Code_int sc'))])), l2)) \<and>
   (sign_and_stamp A request a b log = (Inr v, l) \<longrightarrow>
      (\<exists>r1 j m r2. pkcs7_join A a b request log = (Inr (200, r1), m) \<and>
         SavePkcsView_pkcs7_join A request a b log = (Inr j, m) \<and>
         timestamp_pkcs7 A j request m = (Inr (200, r2), l)))"
proof (intro conjI impI)
  assume h: "pkcs7_join A a b request log = (Inr (sc, resp), log1) \<and> sc \<noteq> 200"
  then have c: "pkcs7_join A a b request log = (Inr (sc, resp), log1)" and "sc \<noteq> 200"
    by simp_all
  then have "SavePkcsView_pkcs7_join A request a b log = (Inl (rejection sc resp), log1)"
    by (simp add: join_stage_cases [OF c])
  moreover from c have "log1 = log @ [\<lparr>verb = POST, url = JOIN_URL,
      headers = get_headers request, payload = Some (PStr (a @ ''|'' @ b))\<rparr>]"
    using join_client_log [of A a b request log] by simp
  ultimately show "sign_and_stamp A request a b log =
        (Inl (ValidationError
                (DetailDict [(''success'', ErrorDetail ''False'' (Code_int sc)),
                             (''err_msg'', ErrorDetail (resp_text resp) (Code_int sc))])),
         log @ [\<lparr>verb = POST, url = JOIN_URL, headers = get_headers request,
                 payload = Some (PStr (a @ ''|'' @ b))\<rparr>])"
    by (simp add: sign_and_stamp_def py_bind_def rejection_value)
next
  assume h: "SavePkcsView_pkcs7_join A request a b log = (Inr joined, l1) \<and>
    timestamp_pkcs7 A joined request l1 = (Inr (sc', resp'), l2) \<and> sc' \<noteq> 200"
  then have t: "timestamp_pkcs7 A joined request l1 = (Inr (sc', resp'), l2)"
    by simp
  from h have "SavePkcsView_timestamp_pkcs7 A request joined l1 = (Inl (rejection sc' resp'), l2)"
    by (simp add: timestamp_stage_cases [OF t])
  with h show "sign_and_stamp A request a b log =
        (Inl (ValidationError
                (DetailDict [(''success'', ErrorDetail ''False'' (Code_int sc')),
                             (''err_msg'', ErrorDetail (resp_text resp') (Code_int sc'))])), l2)"
    by (simp add: sign_and_stamp_def py_bind_def rejection_value)
next
  assume ok: "sign_and_stamp A request a b log = (Inr v, l)"
  obtain r m where jr: "SavePkcsView_pkcs7_join A request a b log = (r, m)"
    by (cases "SavePkcsView_pkcs7_join A request a b log")
  with ok obtain j where j: "r = Inr j"
    by (cases r) (simp_all add: sign_and_stamp_def py_bind_def)
  with ok jr have ts: "SavePkcsView_timestamp_pkcs7 A request j m = (Inr v, l)"
    by (simp add: sign_and_stamp_def py_bind_def)
  from jr j have js: "SavePkcsView_pkcs7_join A request a b log = (Inr j, m)"
    by simp
  from join_stage_success [OF js] obtain r1
    where "pkcs7_join A a b request log = (Inr (200, r1), m)" ..
  moreover from timestamp_stage_success [OF ts] obtain r2
    where "timestamp_pkcs7 A j request m = (Inr (200, r2), l)" ..
  ultimately show "\<exists>r1 j m r2. pkcs7_join A a b request log = (Inr (200, r1), m) \<and>
         SavePkcsView_pkcs7_join A request a b log = (Inr j, m) \<and>
         timestamp_pkcs7 A j request m = (Inr (200, r2), l)"
    using js by blast
qed

theorem sign_and_stamp_fail_fast_witness:
  "sign_and_stamp (stub \<lparr>status_code = 500, resp_text = ''boom'', json = None\<rparr>)
     example_request ''AAA'' ''BBB'' [] =
     (Inl (ValidationError
             (DetailDict [(''success'', ErrorDetail ''False'' (Code_int 500)),
                          (''err_msg'', ErrorDetail ''boom'' (Code_int 500))])),
      [\<lparr>verb = POST, url = JOIN_URL,
        headers = [(''Host'', Some ''gateway.example''), (''X-Real-IP'', Some ''10.0.0.5'')],
        payload = Some (PStr ''AAA|BBB'')\<rparr>]) \<and>
   sign_and_stamp
     (\<lambda>log rq. if url rq = JOIN_URL
        then Inr \<lparr>status_code = 200, resp_text = [],
                  json = Some (PDict [(''pkcs7b64'', PStr ''JOINED'')])\<rparr>
        else Inr \<lparr>status_code = 500, resp_text = ''boom'', json = None\<rparr>)
     example_request ''AAA'' ''BBB'' [] =
     (Inl (ValidationError
             (DetailDict [(''success'', ErrorDetail ''False'' (Code_int 500)),
                          (''err_msg'', ErrorDetail ''boom'' (Code_int 500))])),
      [\<lparr>verb = POST, url = JOIN_URL,
        headers = [(''Host'', Some ''gateway.example''), (''X-Real-IP'', Some ''10.0.0.5'')],
        payload = Some (PStr ''AAA|BBB'')\<rparr>,
       \<lparr>verb = POST, url = TIME_STAMP_URL,
        headers = [(''Host'', Some ''gateway.example''), (''X-Real-IP'', Some ''10.0.0.5'')],
        payload = Some (PStr ''JOINED'')\<rparr>]) \<and>
   (\<exists>r1 j m r2.
      pkcs7_join
        (stub \<lparr>status_code = 200, resp_text = [],
               json = Some (PDict [(''pkcs7b64'', PStr ''XYZ'')])\<rparr>)
        ''AAA'' ''BBB'' example_request [] = (Inr (200, r1), m) \<and>
      SavePkcsView_pkcs7_join
        (stub \<lparr>status_code = 200, resp_text = [],
               json = Some (PDict [(''pkcs7b64'', PStr ''XYZ'')])\<rparr>)
        example_request ''AAA'' ''BBB'' [] = (Inr j, m) \<and>
      timestamp_pkcs7
        (stub \<lparr>status_code = 200, resp_text = [],
               json = Some (PDict [(''pkcs7b64'', PStr ''XYZ'')])\<rparr>)
        j example_request m =
        (Inr (200, r2),
         [\<lparr>verb = POST, url = JOIN_URL,
           headers = [(''Host'', Some ''gateway.example''), (''X-Real-IP'', Some ''10.0.0.5'')],
           payload = Some (PStr ''AAA|BBB'')\<rparr>,
          \<lparr>verb = POST, url = TIME_STAMP_URL,
           headers = [(''Host'', Some ''gateway.example''), (''X-Real-IP'', Some ''10.0.0.5'')],
           payload = Some (PStr ''XYZ'')\<rparr>]))"
proof -
  let ?ok = "\<lparr>status_code = 200, resp_text = [],
              json = Some (PDict [(''pkcs7b64'', PStr ''XYZ'')])\<rparr>"
  let ?xrq = "\<lparr>verb = POST, url = TIME_STAMP_URL,
        headers = [(''Host'', Some ''gateway.example''), (''X-Real-IP'', Some ''10.0.0.5'')],
        payload = Some (PStr ''XYZ'')\<rparr>"
  let ?bad = "\<lparr>status_code = 500, resp_text = ''boom'', json = None\<rparr>"
  let ?good = "\<lparr>status_code = 200, resp_text = [],
                json = Some (PDict [(''pkcs7b64'', PStr ''JOINED'')])\<rparr>"
  let ?A = "\<lambda>log rq. if url rq = JOIN_URL then Inr ?good else Inr ?bad"
  let ?jrq = "\<lparr>verb = POST, url = JOIN_URL,
        headers = [(''Host'', Some ''gateway.example''), (''X-Real-IP'', Some ''10.0.0.5'')],
        payload = Some (PStr ''AAA|BBB'')\<rparr>"
  let ?trq = "\<lparr>verb = POST, url = TIME_STAMP_URL,
        headers = [(''Host'', Some ''gateway.example''), (''X-Real-IP'', Some ''10.0.0.5'')],
        payload = Some (PStr ''JOINED'')\<rparr>"
  have c1: "pkcs7_join (stub ?bad) ''AAA'' ''BBB'' example_request [] = (Inr (500, ?bad), [?jrq])"
    by (simp add: stub_join example_headers)
  have n: "(500::int) \<noteq> 200"
    by simp
  from sign_and_stamp_fail_fast [of "stub ?bad" "''AAA''" "''BBB''" example_request "[]"
      500 ?bad "[?jrq]"] c1 n
  have 1: "sign_and_stamp (stub ?bad) example_request ''AAA'' ''BBB'' [] =
     (Inl (ValidationError
             (DetailDict [(''success'', ErrorDetail ''False'' (Code_int 500)),
                          (''err_msg'', ErrorDetail ''boom'' (Code_int 500))])), [?jrq])"
    by (simp add: example_headers)
  have c2: "pkcs7_join ?A ''AAA'' ''BBB'' example_request [] = (Inr (200, ?good), [?jrq])"
    by (simp add: join_client_run example_headers)
  have j: "SavePkcsView_pkcs7_join ?A example_request ''AAA'' ''BBB'' [] =
      (Inr (PStr ''JOINED''), [?jrq])"
    by (simp add: join_stage_cases [OF c2])
  have t: "timestamp_pkcs7 ?A (PStr ''JOINED'') example_request [?jrq] =
      (Inr (500, ?bad), [?jrq, ?trq])"
    by (simp add: timestamp_client_run example_headers TIME_STAMP_URL_def JOIN_URL_def)
  from sign_and_stamp_fail_fast [where A = ?A and a = "''AAA''" and b = "''BBB''"
      and request = example_request and log = "[]" and joined = "PStr ''JOINED''"
      and ?l1.0 = "[?jrq]" and sc' = 500 and resp' = ?bad and ?l2.0 = "[?jrq, ?trq]"] j t n
  have 2: "sign_and_stamp ?A example_request ''AAA'' ''BBB'' [] =
     (Inl (ValidationError
             (DetailDict [(''success'', ErrorDetail ''False'' (Code_int 500)),
                          (''err_msg'', ErrorDetail ''boom'' (Code_int 500))])),
      [?jrq, ?trq])"
    by simp
  have s: "sign_and_stamp (stub ?ok) example_request ''AAA'' ''BBB'' [] =
      (Inr (Val (PStr ''XYZ'')), [?jrq, ?xrq])"
    by (simp add: sign_and_stamp_def py_bind_def join_stage_cases [OF stub_join]
        timestamp_stage_cases [OF stub_timestamp] example_headers)
  from sign_and_stamp_fail_fast [where A = "stub ?ok" and a = "''AAA''" and b = "''BBB''"
      and request = example_request and log = "[]" and v = "Val (PStr ''XYZ'')"
      and l = "[?jrq, ?xrq]"] s
  have 3: "\<exists>r1 j m r2.
      pkcs7_join (stub ?ok) ''AAA'' ''BBB'' example_request [] = (Inr (200, r1), m) \<and>
      SavePkcsView_pkcs7_join (stub ?ok) example_request ''AAA'' ''BBB'' [] = (Inr j, m) \<and>
      timestamp_pkcs7 (stub ?ok) j example_request m = (Inr (200, r2), [?jrq, ?xrq])"
    by blast
  from 1 2 3 show ?thesis
    by simp
qed

section \<open>Identity headers\<close>

text \<open>
  C8. Each of the four client operations (challenge, join, timestamp, verify) makes
  exactly one call, and that call carries exactly two headers taken from the inbound
  request: \<open>Host\<close>, the request's \<open>HTTP_HOST\<close> entry as it stands, and \<open>X-Real-IP\<close>,
  the resolved source IP.
\<close>

theorem identity_headers_on_every_call:
  "snd (eimzo_challenge A request log) =
     log @ [\<lparr>verb = GET, url = CHALLENGE_URL,
             headers = [(''Host'', environ request ''HTTP_HOST''),
                        (''X-Real-IP'', Some (get_user_ip request))],
             payload = None\<rparr>] \<and>
   snd (pkcs7_join A a b request log) =
     log @ [\<lparr>verb = POST, url = JOIN_URL,
             headers = [(''Host'', environ request ''HTTP_HOST''),
                        (''X-Real-IP'', Some (get_user_ip request))],
             payload = Some (PStr (a @ ''|'' @ b))\<rparr>] \<and>
   snd (timestamp_pkcs7 A p request log) =
     log @ [\<lparr>verb = POST, url = TIME_STAMP_URL,
             headers = [(''Host'', environ request ''HTTP_HOST''),
                        (''X-Real-IP'', Some (get_user_ip request))],
             payload = Some p\<rparr>] \<and>
   snd (eimzo_verify A p request log) =
     log @ [\<lparr>verb = POST, url = VERIFY_URL @ ''/attached'',
             headers = [(''Host'', environ request ''HTTP_HOST''),
                        (''X-Real-IP'', Some (get_user_ip request))],
             payload = Some p\<rparr>]"
proof (intro conjI)
  show "snd (eimzo_challenge A request log) =
     log @ [\<lparr>verb = GET, url = CHALLENGE_URL,
             headers = [(''Host'', environ request ''HTTP_HOST''),
                        (''X-Real-IP'', Some (get_user_ip request))],
             payload = None\<rparr>]"
    by (simp add: challenge_client_run get_headers_def)
  show "snd (pkcs7_join A a b request log) =
     log @ [\<lparr>verb = POST, url = JOIN_URL,
             headers = [(''Host'', environ request ''HTTP_HOST''),
                        (''X-Real-IP'', Some (get_user_ip request))],
             payload = Some (PStr (a @ ''|'' @ b))\<rparr>]"
    by (simp add: join_client_run get_headers_def)
  show "snd (timestamp_pkcs7 A p request log) =
     log @ [\<lparr>verb = POST, url = TIME_STAMP_URL,
             headers = [(''Host'', environ request ''HTTP_HOST''),
                        (''X-Real-IP'', Some (get_user_ip request))],
             payload = Some p\<rparr>]"
    by (simp add: timestamp_client_run get_headers_def)
  show "snd (eimzo_verify A p request log) =
     log @ [\<lparr>verb = POST, url = VERIFY_URL @ ''/attached'',
             headers = [(''Host'', environ request ''HTTP_HOST''),
                        (''X-Real-IP'', Some (get_user_ip request))],
             payload = Some p\<rparr>]"
    by (simp add: verify_client_run get_headers_def)
qed

theorem identity_headers_on_every_call_witness:
  "map headers (snd (eimzo_challenge
       (stub \<lparr>status_code = 200, resp_text = [], json = None\<rparr>) example_request [])) =
     [[(''Host'', Some ''gateway.example''), (''X-Real-IP'', Some ''10.0.0.5'')]] \<and>
   map headers (snd (eimzo_verify
       (stub \<lparr>status_code = 200, resp_text = [], json = None\<rparr>)
       (PStr ''MIIB'') (example_request\<lparr>META := Map.empty, environ := Map.empty\<rparr>) [])) =
     [[(''Host'', None), (''X-Real-IP'', Some ''Unknown'')]]"
  using identity_headers_on_every_call
      [of "stub \<lparr>status_code = 200, resp_text = [], json = None\<rparr>" example_request "[]"]
    identity_headers_on_every_call
      [where A = "stub \<lparr>status_code = 200, resp_text = [], json = None\<rparr>"
        and request = "example_request\<lparr>META := Map.empty, environ := Map.empty\<rparr>"
        and log = "[]" and p = "PStr ''MIIB''"]
  by (simp add: example_request_def get_user_ip_def)

section \<open>Timestamp: how the three outcomes reach the caller\<close>

text \<open>
  C9. A rejection (status other than 200) is raised: whatever the caller chained after
  the timestamp stage does not run. The answer without an envelope (status 200,
  \<open>pkcs7b64\<close> absent or the literal \<open>false\<close>) is returned, as an envelope is: in both
  cases the code chained after the stage runs, on the 406 response object in the one and
  on the envelope in the other.
\<close>

theorem timestamp_outcome_channels:
  assumes client: "timestamp_pkcs7 A pkcs7 request log = (Inr (sc, resp), log')"
  shows "(sc \<noteq> 200 \<longrightarrow>
            py_bind (SavePkcsView_timestamp_pkcs7 A request pkcs7) cont log =
              (Inl (ValidationError
                      (DetailDict [(''success'', ErrorDetail ''False'' (Code_int sc)),
                                   (''err_msg'', ErrorDetail (resp_text resp) (Code_int sc))])), log')) \<and>
         (sc = 200 \<and> json resp = Some (PDict kvs) \<and>
          (map_of kvs ''pkcs7b64'' = None \<or> map_of kvs ''pkcs7b64'' = Some (PBool False)) \<longrightarrow>
            py_bind (SavePkcsView_timestamp_pkcs7 A request pkcs7) cont log =
              cont (Resp (Response
                 (PDict [(''success'', PBool False), (''err_msg'', PDict kvs)])
                 (Some 406))) log') \<and>
         (sc = 200 \<and> json resp = Some (PDict kvs) \<and>
          map_of kvs ''pkcs7b64'' = Some v \<and> v \<noteq> PBool False \<longrightarrow>
            py_bind (SavePkcsView_timestamp_pkcs7 A request pkcs7) cont log =
              cont (Val v) log')"
proof (intro conjI impI)
  assume "sc \<noteq> 200"
  then show "py_bind (SavePkcsView_timestamp_pkcs7 A request pkcs7) cont log =
      (Inl (ValidationError
              (DetailDict [(''success'', ErrorDetail ''False'' (Code_int sc)),
                           (''err_msg'', ErrorDetail (resp_text resp) (Code_int sc))])), log')"
    by (simp add: py_bind_def timestamp_stage_cases [OF client] rejection_value)
next
  assume h: "sc = 200 \<and> json resp = Some (PDict kvs) \<and>
      (map_of kvs ''pkcs7b64'' = None \<or> map_of kvs ''pkcs7b64'' = Some (PBool False))"
  then have "dict_get (PDict kvs) ''pkcs7b64'' (PBool False) = Inr (PBool False)"
    by auto
  with h show "py_bind (SavePkcsView_timestamp_pkcs7 A request pkcs7) cont log =
      cont (Resp (Response
         (PDict [(''success'', PBool False), (''err_msg'', PDict kvs)])
         (Some 406))) log'"
    by (simp add: py_bind_def timestamp_stage_cases [OF client])
next
  assume h: "sc = 200 \<and> json resp = Some (PDict kvs) \<and>
      map_of kvs ''pkcs7b64'' = Some v \<and> v \<noteq> PBool False"
  then have "dict_get (PDict kvs) ''pkcs7b64'' (PBool False) = Inr v"
    by auto
  with h show "py_bind (SavePkcsView_timestamp_pkcs7 A request pkcs7) cont log = cont (Val v) log'"
    by (simp add: py_bind_def timestamp_stage_cases [OF client])
qed

theorem timestamp_outcome_channels_witness:
  "fst (py_bind (SavePkcsView_timestamp_pkcs7
          (stub \<lparr>status_code = 500, resp_text = ''boom'', json = None\<rparr>)
          example_request (PStr ''MIIB'')) (\<lambda>r. py_return True) []) =
     Inl (ValidationError
            (DetailDict [(''success'', ErrorDetail ''False'' (Code_int 500)),
                         (''err_msg'', ErrorDetail ''boom'' (Code_int 500))])) \<and>
   fst (py_bind (SavePkcsView_timestamp_pkcs7
          (stub \<lparr>status_code = 200, resp_text = ''{}'', json = Some (PDict [])\<rparr>)
          example_request (PStr ''MIIB'')) (\<lambda>r. py_return True) []) = Inr True \<and>
   fst (py_bind (SavePkcsView_timestamp_pkcs7
          (stub \<lparr>status_code = 200, resp_text = [],
                 json = Some (PDict [(''pkcs7b64'', PStr ''XYZ'')])\<rparr>)
          example_request (PStr ''MIIB'')) (\<lambda>r. py_return True) []) = Inr True"
proof -
  let ?bad = "\<lparr>status_code = 500, resp_text = ''boom'', json = None\<rparr>"
  let ?absent = "\<lparr>status_code = 200, resp_text = ''{}'', json = Some (PDict [])\<rparr>"
  let ?given = "\<lparr>status_code = 200, resp_text = [],
                 json = Some (PDict [(''pkcs7b64'', PStr ''XYZ'')])\<rparr>"
  let ?rq = "\<lparr>verb = POST, url = TIME_STAMP_URL, headers = get_headers example_request,
              payload = Some (PStr ''MIIB'')\<rparr>"
  have b: "timestamp_pkcs7 (stub ?bad) (PStr ''MIIB'') example_request [] =
      (Inr (500, ?bad), [?rq])"
    by (simp add: stub_timestamp)
  have a: "timestamp_pkcs7 (stub ?absent) (PStr ''MIIB'') example_request [] =
      (Inr (200, ?absent), [?rq])"
    by (simp add: stub_timestamp)
  have g: "timestamp_pkcs7 (stub ?given) (PStr ''MIIB'') example_request [] =
      (Inr (200, ?given), [?rq])"
    by (simp add: stub_timestamp)
  from timestamp_outcome_channels [OF b, where cont = "\<lambda>r. py_return True"]
    timestamp_outcome_channels [OF a, where cont = "\<lambda>r. py_return True" and kvs = "[]"]
    timestamp_outcome_channels [OF g, where cont = "\<lambda>r. py_return True"
      and kvs = "[(''pkcs7b64'', PStr ''XYZ'')]" and v = "PStr ''XYZ''"]
  show ?thesis
    by (simp add: py_return_def)
qed

section \<open>The two verify stages\<close>

text \<open>
  C10. On a 200 answer the verify stage of the compose view returns \<open>None\<close> and drops
  the authority's body, while the verify stage of the verify-only view returns the parsed
  body (or raises when the body is not JSON). For any parsed body other than \<open>null\<close>
  the two results differ.
\<close>

theorem verify_wrappers_differ:
  assumes client: "eimzo_verify A p request log = (Inr (200, resp), log')"
  shows "SavePkcsView_eimzo_verify A request p log = (Inr PNone, log') \<and>
         PkcsVerify_eimzo_verify A request p log =
           ((case json resp of None \<Rightarrow> Inl JSONDecodeError | Some j \<Rightarrow> Inr j), log') \<and>
         (json resp = Some j \<and> j \<noteq> PNone \<longrightarrow>
            PkcsVerify_eimzo_verify A request p log = (Inr j, log') \<and>
            SavePkcsView_eimzo_verify A request p log \<noteq>
              PkcsVerify_eimzo_verify A request p log)"
  by (auto simp: compose_verify_stage_cases [OF client] verify_only_stage_cases [OF client]
      resp_json_def)

theorem verify_wrappers_differ_witness:
  "SavePkcsView_eimzo_verify
     (stub \<lparr>status_code = 200, resp_text = [], json = Some (PDict [(''ok'', PBool True)])\<rparr>)
     example_request (PStr ''MIIB'') [] =
     (Inr PNone,
      [\<lparr>verb = POST, url = VERIFY_URL @ ''/attached'',
        headers = [(''Host'', Some ''gateway.example''), (''X-Real-IP'', Some ''10.0.0.5'')],
        payload = Some (PStr ''MIIB'')\<rparr>]) \<and>
   PkcsVerify_eimzo_verify
     (stub \<lparr>status_code = 200, resp_text = [], json = Some (PDict [(''ok'', PBool True)])\<rparr>)
     example_request (PStr ''MIIB'') [] =
     (Inr (PDict [(''ok'', PBool True)]),
      [\<lparr>verb = POST, url = VERIFY_URL @ ''/attached'',
        headers = [(''Host'', Some ''gateway.example''), (''X-Real-IP'', Some ''10.0.0.5'')],
        payload = Some (PStr ''MIIB'')\<rparr>])"
proof -
  let ?r = "\<lparr>status_code = 200, resp_text = [],
             json = Some (PDict [(''ok'', PBool True)])\<rparr>"
  have c: "eimzo_verify (stub ?r) (PStr ''MIIB'') example_request [] =
      (Inr (200, ?r), [\<lparr>verb = POST, url = VERIFY_URL @ ''/attached'',
        headers = [(''Host'', Some ''gateway.example''), (''X-Real-IP'', Some ''10.0.0.5'')],
        payload = Some (PStr ''MIIB'')\<rparr>])"
    by (simp add: stub_verify example_headers)
  from verify_wrappers_differ [OF c, where j = "PDict [(''ok'', PBool True)]"]
  show ?thesis
    by simp
qed

end
